theory Spec2Isabelle
  imports Main "HOL-Library.Sublist"
begin

section \<open>The installer script \<open>arch_install.py\<close> as a state-passing program\<close>

text \<open>
  The script is a sequence of prints, prompts, shell commands, calls of the partitioning
  library and file writes. The model keeps every such effect as an event of a trace, in
  the order the script performs it. What the outside world answers (exit status of a
  shell command, whether the partitioning library raises, the geometry of a device) is
  read from an environment; the answers may depend on the events so far.
\<close>

subsection \<open>Events, exceptions, environment and state\<close>

datatype geometry = Geometry (g_start: int) (g_length: int)

text \<open>\<open>geometry.end\<close> of the partitioning library: the last sector of the region.\<close>

definition g_end :: "geometry \<Rightarrow> int" where
  "g_end g = g_start g + g_length g - 1"

datatype partition = Partition (p_fs: string) (p_geom: geometry) (p_boot: bool)

datatype parted_op =
    GetDevice string
  | FreshDisk string string
  | NewGeometry string int int
  | NewFileSystem string geometry
  | NewPartition string geometry
  | SetFlagBoot
  | AddPartition partition
  | Commit

datatype event =
    Print string
  | Prompt string
  | Shell string
  | Parted parted_op
  | OpenW string
  | Write string string

datatype exc =
    CalledProcessError string nat string
  | SystemExit nat
  | KeyboardInterrupt
  | EOFError
  | TypeError string
  | IndexError string
  | ZeroDivisionError string
  | PartedException string
  | OSError string

datatype key = Typed string | Interrupt

text \<open>
  The result of a shell command: exit status, captured output. A shell that is itself
  killed by a signal (a negative status in Python) is not modelled.
\<close>

record proc =
  returncode :: nat
  stdout :: string
  stderr :: string

record env =
  euid :: nat
  efi_present :: bool
  sh :: "event list \<Rightarrow> string \<Rightarrow> proc"
  parted_raises :: "event list \<Rightarrow> parted_op \<Rightarrow> string option"
  open_raises :: "event list \<Rightarrow> string \<Rightarrow> string option"
  dev_length :: "string \<Rightarrow> int"
  dev_sector_size :: "string \<Rightarrow> int"

record state =
  keys :: "key list"
  trace :: "event list"

datatype 'a outcome = Return 'a | Raise exc

type_synonym 'a prog = "state \<Rightarrow> 'a outcome \<times> state"

definition ret :: "'a \<Rightarrow> 'a prog" where
  "ret x s = (Return x, s)"

definition raise :: "exc \<Rightarrow> 'a prog" where
  "raise e s = (Raise e, s)"

definition bnd :: "'a prog \<Rightarrow> ('a \<Rightarrow> 'b prog) \<Rightarrow> 'b prog" where
  "bnd m f s = (case m s of (Return x, s1) \<Rightarrow> f x s1 | (Raise e, s1) \<Rightarrow> (Raise e, s1))"

definition thn :: "'a prog \<Rightarrow> 'b prog \<Rightarrow> 'b prog" where
  "thn m k = bnd m (\<lambda>_. k)"

fun seq :: "unit prog list \<Rightarrow> unit prog" where
  "seq [] = ret ()"
| "seq (m # ms) = thn m (seq ms)"

text \<open>\<open>try: m except <handled>: h\<close>; an exception that is not handled propagates.\<close>

definition try_except :: "'a prog \<Rightarrow> (exc \<Rightarrow> 'a prog option) \<Rightarrow> 'a prog" where
  "try_except m h s =
     (case m s of
        (Return x, s1) \<Rightarrow> (Return x, s1)
      | (Raise e, s1) \<Rightarrow> (case h e of None \<Rightarrow> (Raise e, s1) | Some k \<Rightarrow> k s1))"

definition emit :: "event \<Rightarrow> unit prog" where
  "emit e s = (Return (), s\<lparr>trace := trace s @ [e]\<rparr>)"

definition print :: "string \<Rightarrow> unit prog" where
  "print t = emit (Print t)"

definition sys_exit :: "nat \<Rightarrow> 'a prog" where
  "sys_exit n = raise (SystemExit n)"

text \<open>
  \<open>input(prompt)\<close> and \<open>getpass.getpass(prompt)\<close>: the prompt is written, then the
  operator's next answer is taken. No answer left is end of input.
\<close>

definition input :: "string \<Rightarrow> string prog" where
  "input prompt s =
     (let s1 = s\<lparr>trace := trace s @ [Prompt prompt]\<rparr>
      in case keys s of
           [] \<Rightarrow> (Raise EOFError, s1)
         | Interrupt # ks \<Rightarrow> (Raise KeyboardInterrupt, s1\<lparr>keys := ks\<rparr>)
         | Typed l # ks \<Rightarrow> (Return l, s1\<lparr>keys := ks\<rparr>))"

definition getpass :: "string \<Rightarrow> string prog" where
  "getpass prompt = input prompt"

subsection \<open>Strings\<close>

definition sq :: string where
  "sq = [CHR 0x27]"

text \<open>
  A character of the model is a code point below 256. The white space that
  \<open>str.strip()\<close> and \<open>str.split()\<close> remove is, among these, the ASCII white space
  with the four separators \<open>0x1C\<close> to \<open>0x1F\<close>, the next-line character \<open>0x85\<close> and
  the no-break space \<open>0xA0\<close>. The spaces of Unicode beyond 255 have no character in the
  model: a line that holds one is not an input of it.
\<close>

definition is_space :: "char \<Rightarrow> bool" where
  "is_space c = (c \<in> set [CHR 0x09, CHR 0x0A, CHR 0x0B, CHR 0x0C, CHR 0x0D,
                            CHR 0x1C, CHR 0x1D, CHR 0x1E, CHR 0x1F, CHR 0x20,
                            CHR 0x85, CHR 0xA0])"

definition strip :: "string \<Rightarrow> string" where
  "strip t = rev (dropWhile is_space (rev (dropWhile is_space t)))"

text \<open>\<open>str.split()\<close> without argument: the maximal runs of non-space characters.\<close>

fun split_acc :: "string \<Rightarrow> string \<Rightarrow> string list" where
  "split_acc w [] = (if w = [] then [] else [w])"
| "split_acc w (c # cs) =
     (if is_space c then (if w = [] then split_acc [] cs else w # split_acc [] cs)
      else split_acc (w @ [c]) cs)"

definition split :: "string \<Rightarrow> string list" where
  "split t = split_acc [] t"

fun show_nat :: "nat \<Rightarrow> string" where
  "show_nat n =
     (if n < 10 then [''0123456789'' ! n]
      else show_nat (n div 10) @ [''0123456789'' ! (n mod 10)])"

text \<open>\<open>str(e)\<close> of the exceptions the script can meet.\<close>

fun exc_str :: "exc \<Rightarrow> string" where
  "exc_str (CalledProcessError cmd rc err) =
     ''Command '' @ sq @ cmd @ sq @ '' returned non-zero exit status '' @ show_nat rc @ ''.''"
| "exc_str (SystemExit n) = show_nat n"
| "exc_str KeyboardInterrupt = []"
| "exc_str EOFError = ''EOF when reading a line''"
| "exc_str (TypeError m) = m"
| "exc_str (IndexError m) = m"
| "exc_str (ZeroDivisionError m) = m"
| "exc_str (PartedException m) = m"
| "exc_str (OSError m) = m"

subsection \<open>\<open>run_command\<close>\<close>

definition run_command :: "env \<Rightarrow> string \<Rightarrow> bool \<Rightarrow> proc prog" where
  "run_command ev command check s =
     (let r = sh ev (trace s) command;
          s1 = s\<lparr>trace := trace s @ [Shell command]\<rparr>
      in if check \<and> returncode r \<noteq> 0
         then (Raise (CalledProcessError command (returncode r) (stderr r)),
               s1\<lparr>trace := trace s1 @
                  [Print (''Error executing command: '' @ command),
                   Print (''Output: '' @ stderr r)]\<rparr>)
         else (Return r, s1))"

text \<open>A call whose result is dropped, with the default \<open>check=True\<close>.\<close>

definition run :: "env \<Rightarrow> string \<Rightarrow> unit prog" where
  "run ev command = bnd (run_command ev command True) (\<lambda>_. ret ())"

definition detect_uefi :: "env \<Rightarrow> bool prog" where
  "detect_uefi ev = ret (efi_present ev)"

subsection \<open>Partitioning\<close>

definition parted :: "env \<Rightarrow> parted_op \<Rightarrow> unit prog" where
  "parted ev oper s =
     (let s1 = s\<lparr>trace := trace s @ [Parted oper]\<rparr>
      in case parted_raises ev (trace s) oper of
           None \<Rightarrow> (Return (), s1)
         | Some m \<Rightarrow> (Raise (PartedException m), s1))"

text \<open>Python's \<open>a // b\<close> on integers: floor division, an exception when \<open>b\<close> is 0.\<close>

definition floordiv :: "int \<Rightarrow> int \<Rightarrow> int prog" where
  "floordiv a b =
     (if b = 0 then raise (ZeroDivisionError ''integer division or modulo by zero'')
      else ret (a div b))"

text \<open>
  One partition of the automatic layout: geometry, file system, partition, the boot flag
  for the EFI partition, and the addition to the disk. The result is the geometry.
\<close>

definition add_region :: "env \<Rightarrow> string \<Rightarrow> string \<Rightarrow> bool \<Rightarrow> int \<Rightarrow> int \<Rightarrow> geometry prog" where
  "add_region ev dev fs boot start len =
     (let g = Geometry start len
      in thn (seq ([parted ev (NewGeometry dev start len),
                    parted ev (NewFileSystem fs g),
                    parted ev (NewPartition fs g)]
                   @ (if boot then [parted ev SetFlagBoot] else [])
                   @ [parted ev (AddPartition (Partition fs g boot))]))
             (ret g))"

definition efi_size :: int where
  "efi_size = 512 * 1024 * 1024"

definition swap_size :: int where
  "swap_size = 2 * 1024 * 1024 * 1024"

definition auto_partition_disk :: "env \<Rightarrow> string \<Rightarrow> bool \<Rightarrow> bool \<Rightarrow> string list prog" where
  "auto_partition_disk ev disk uefi swap =
     (let dev = ''/dev/'' @ disk
      in thn (print (''Partitioning disk: /dev/'' @ disk))
        (thn (parted ev (GetDevice dev))
        (thn (parted ev (FreshDisk dev ''gpt''))
        (bnd (if uefi
              then bnd (floordiv (dev_length ev dev * efi_size) (dev_sector_size ev dev))
                     (\<lambda>len. bnd (add_region ev dev ''fat32'' True 1 len)
                        (\<lambda>efi_geometry. ret (g_end efi_geometry + 1)))
              else ret 1)
          (\<lambda>start0.
         bnd (if swap
              then bnd (floordiv (dev_length ev dev * swap_size) (dev_sector_size ev dev))
                     (\<lambda>len. bnd (add_region ev dev ''swap'' False start0 len)
                        (\<lambda>swap_geometry. ret (g_end swap_geometry + 1)))
              else ret start0)
          (\<lambda>start.
         thn (add_region ev dev ''ext4'' False start (dev_length ev dev - start - 1))
        (thn (parted ev Commit)
        (thn (print ''Disk partitioning completed.'')
          (if uefi \<and> swap
           then ret [''/dev/'' @ disk @ ''1'', ''/dev/'' @ disk @ ''2'', ''/dev/'' @ disk @ ''3'']
           else if uefi \<or> swap
           then ret [''/dev/'' @ disk @ ''1'', ''/dev/'' @ disk @ ''2'']
           else ret [''/dev/'' @ disk @ ''1''])))))))))"

definition manual_partitioning :: "env \<Rightarrow> string \<Rightarrow> string list prog" where
  "manual_partitioning ev disk =
     thn (print (''Launching cfdisk for manual partitioning on /dev/'' @ disk @ ''...''))
    (thn (run ev (''cfdisk /dev/'' @ disk))
    (thn (print (''Manual partitioning completed. Please verify your partitions with ''
                  @ sq @ ''lsblk'' @ sq @ ''.''))
    (bnd (input ''Enter the partitions (e.g., /dev/sda1 /dev/sda2): '')
       (\<lambda>l. ret (split (strip l))))))"

definition partition_disk :: "env \<Rightarrow> string \<Rightarrow> bool \<Rightarrow> string list prog" where
  "partition_disk ev disk uefi =
     thn (seq [print (''Selected disk: '' @ disk),
               print ''Partitioning options:'',
               print ''[1] Automatic: /boot (512MB, UEFI only) + / (rest)'',
               print ''[2] Automatic with swap: /boot (512MB, UEFI only) + swap (2GB) + / (rest)'',
               print ''[3] Manual partitioning with cfdisk''])
    (bnd (input ''Select partitioning option [1-3]: '')
       (\<lambda>l. let choice = strip l
             in if choice = ''1'' then auto_partition_disk ev disk uefi False
                else if choice = ''2'' then auto_partition_disk ev disk uefi True
                else if choice = ''3'' then manual_partitioning ev disk
                else thn (print ''Invalid choice. Defaulting to option 1.'')
                         (auto_partition_disk ev disk uefi False)))"

subsection \<open>Formatting and mounting\<close>

text \<open>
  The body of the loop \<open>for i, part in enumerate(partitions)\<close>; \<open>n\<close> is
  \<open>len(partitions)\<close>.
\<close>

definition format_one :: "env \<Rightarrow> bool \<Rightarrow> nat \<Rightarrow> nat \<Rightarrow> string \<Rightarrow> unit prog" where
  "format_one ev uefi n i part =
     (if uefi \<and> i = 0 then run ev (''mkfs.fat -F32 '' @ part)
      else if (n = 3 \<and> i = 1) \<or> (\<not> uefi \<and> n = 2 \<and> i = 0)
      then thn (run ev (''mkswap '' @ part)) (run ev (''swapon '' @ part))
      else run ev (''mkfs.ext4 '' @ part))"

fun format_loop :: "env \<Rightarrow> bool \<Rightarrow> nat \<Rightarrow> nat \<Rightarrow> string list \<Rightarrow> unit prog" where
  "format_loop ev uefi n i [] = ret ()"
| "format_loop ev uefi n i (part # rest) =
     thn (format_one ev uefi n i part) (format_loop ev uefi n (Suc i) rest)"

definition format_partitions :: "env \<Rightarrow> string list \<Rightarrow> bool \<Rightarrow> unit prog" where
  "format_partitions ev partitions uefi =
     thn (print ''Formatting partitions...'')
    (thn (format_loop ev uefi (length partitions) 0 partitions)
         (print ''Partitions formatted.''))"

text \<open>\<open>partitions[-1]\<close> and \<open>partitions[0]\<close> raise on the empty list.\<close>

definition index_last :: "'a list \<Rightarrow> 'a prog" where
  "index_last xs = (if xs = [] then raise (IndexError ''list index out of range'')
                    else ret (last xs))"

definition index_first :: "'a list \<Rightarrow> 'a prog" where
  "index_first xs = (case xs of [] \<Rightarrow> raise (IndexError ''list index out of range'')
                     | x # _ \<Rightarrow> ret x)"

definition mount_partitions :: "env \<Rightarrow> string list \<Rightarrow> bool \<Rightarrow> unit prog" where
  "mount_partitions ev partitions uefi =
     thn (print ''Mounting partitions...'')
    (bnd (index_last partitions) (\<lambda>root_part.
     thn (run ev (''mount '' @ root_part @ '' /mnt''))
    (thn (if uefi
          then bnd (index_first partitions) (\<lambda>efi_part.
               thn (run ev ''mkdir -p /mnt/boot'')
                   (run ev (''mount '' @ efi_part @ '' /mnt/boot'')))
          else ret ())
         (print ''Partitions mounted.''))))"

subsection \<open>Network\<close>

definition check_internet :: "env \<Rightarrow> bool prog" where
  "check_internet ev =
     thn (print ''Checking internet connectivity...'')
       (try_except
          (thn (run ev ''ping -c 1 archlinux.org'')
          (thn (print ''Internet connection confirmed.'') (ret True)))
          (\<lambda>e. case e of
                 CalledProcessError _ _ _ \<Rightarrow>
                   Some (thn (print ''No internet connection detected.'') (ret False))
               | _ \<Rightarrow> None))"

definition wifi_setup :: "env \<Rightarrow> unit prog" where
  "wifi_setup ev =
     thn (print ''Scanning for Wi-Fi networks...'')
    (thn (run ev ''iwctl device list'')
    (bnd (input ''Enter wireless device name (e.g., wlan0): '') (\<lambda>l2.
       let device = strip l2
       in thn (run ev (''iwctl station '' @ device @ '' scan''))
         (thn (run ev (''iwctl station '' @ device @ '' get-networks''))
         (bnd (input ''Enter SSID: '') (\<lambda>l3.
            let ssid = strip l3
            in bnd (getpass ''Enter Wi-Fi password (leave blank for none): '') (\<lambda>password.
                 thn (if password \<noteq> []
                      then run ev (''iwctl station '' @ device @ '' connect '' @ sq @ ssid @ sq
                                   @ '' --passphrase '' @ sq @ password @ sq)
                      else run ev (''iwctl station '' @ device @ '' connect '' @ sq @ ssid @ sq))
                (bnd (check_internet ev) (\<lambda>ok.
                   if ok then print ''Wi-Fi configured successfully.''
                   else thn (print ''Wi-Fi connection failed. Please check credentials or configure manually.'')
                            (sys_exit 1))))))))))"

definition configure_network :: "env \<Rightarrow> unit prog" where
  "configure_network ev =
     bnd (check_internet ev) (\<lambda>online.
       if online then ret ()
       else thn (print ''Network configuration required.'')
           (bnd (input ''Select network setup: [1] DHCP (wired), [2] Wi-Fi, [3] Skip: '') (\<lambda>l.
              let choice = strip l
              in if choice = ''1''
                 then thn (run ev ''dhcpcd'')
                     (bnd (check_internet ev) (\<lambda>ok.
                        if ok then print ''Network configured via DHCP.''
                        else thn (print ''DHCP failed. Please configure manually or try Wi-Fi.'')
                                 (sys_exit 1)))
                 else if choice = ''2'' then wifi_setup ev
                 else thn (print ''Skipping network configuration. Installation may fail without internet.'')
                          (sys_exit 1))))"

subsection \<open>Disk detection\<close>

text \<open>
  The function ends after \<open>disks = []\<close> without a \<open>return\<close>: its value is Python's
  \<open>None\<close>, here \<open>None\<close> of the option type; a list would be \<open>Some\<close>.
\<close>

definition list_disks :: "string list option prog" where
  "list_disks = thn (print ''Detecting available disks...'') (ret None)"

text \<open>Iterating over a value that may be \<open>None\<close>.\<close>

definition iterate :: "'a list option \<Rightarrow> 'a list prog" where
  "iterate v = (case v of
                  None \<Rightarrow> raise (TypeError (sq @ ''NoneType'' @ sq @ '' object is not iterable''))
                | Some xs \<Rightarrow> ret xs)"

text \<open>
  \<open>str\<close> of the detection result as \<open>print\<close> shows it. The escapes of \<open>repr\<close> inside a
  list are left out: the names are written between single quotes as they are.
\<close>

fun join :: "string \<Rightarrow> string list \<Rightarrow> string" where
  "join sep [] = []"
| "join sep [x] = x"
| "join sep (x # y # ys) = x @ sep @ join sep (y # ys)"

definition py_str :: "string list option \<Rightarrow> string" where
  "py_str v = (case v of
                 None \<Rightarrow> ''None''
               | Some xs \<Rightarrow> ''['' @ join '', '' (map (\<lambda>x. sq @ x @ sq) xs) @ '']'')"

subsection \<open>Package manager, base system, desktop, fstab\<close>

definition setup_pacman :: "env \<Rightarrow> unit prog" where
  "setup_pacman ev =
     seq [print ''Setting up Pacman...'',
          run ev ''pacman-key --init'',
          run ev ''pacman-key --populate archlinux'',
          run ev (''echo '' @ sq @ ''Server = https://geo.mirror.pkgbuild.com/'' @ [CHR 0x5C]
                  @ ''$repo/os/'' @ [CHR 0x5C] @ ''$arch'' @ sq @ '' > /mnt/etc/pacman.d/mirrorlist''),
          run ev ''pacman -Sy'']"

definition install_base_system :: "env \<Rightarrow> unit prog" where
  "install_base_system ev =
     seq [print ''Installing base system...'',
          run ev ''pacstrap /mnt base linux linux-firmware'',
          print ''Base system installed.'']"

definition desktops :: "(string \<times> string \<times> string \<times> string) list" where
  "desktops =
     [(''1'', ''GNOME'', ''gnome gnome-shell'', ''gdm''),
      (''2'', ''KDE Plasma'', ''plasma kde-applications'', ''sddm''),
      (''3'', ''XFCE'', ''xfce4 xfce4-goodies lightdm lightdm-gtk-greeter'', ''lightdm''),
      (''4'', ''COSMIC (System76)'', ''cosmic-session'', ''cosmic-session''),
      (''5'', ''MATE'', ''mate mate-extra'', ''lightdm''),
      (''6'', ''Cinnamon'', ''cinnamon lightdm lightdm-gtk-greeter'', ''lightdm''),
      (''7'', ''LXQt'', ''lxqt lightdm lightdm-gtk-greeter'', ''lightdm''),
      (''8'', ''None'', [], [])]"

definition install_desktop_environment :: "env \<Rightarrow> unit prog" where
  "install_desktop_environment ev =
     thn (print ''Desktop environment options:'')
    (thn (seq (map (\<lambda>(k, name, _, _). print (''['' @ k @ ''] '' @ name)) desktops))
    (bnd (input ''Select desktop environment [1-8]: '') (\<lambda>l.
       let choice = (if strip l = [] then ''8'' else strip l)
       in case map_of desktops choice of
            Some (name, packages, dm) \<Rightarrow>
              if choice \<noteq> ''8''
              then seq [print (''Installing '' @ name @ ''...''),
                        run ev (''arch-chroot /mnt pacman -S --noconfirm '' @ packages @ '' xorg''),
                        (if dm \<noteq> [] then run ev (''arch-chroot /mnt systemctl enable '' @ dm)
                         else ret ()),
                        print (name @ '' installed and configured.'')]
              else print ''No desktop environment will be installed.''
          | None \<Rightarrow> print ''No desktop environment will be installed.'')))"

definition generate_fstab :: "env \<Rightarrow> unit prog" where
  "generate_fstab ev =
     seq [print ''Generating fstab...'',
          run ev ''genfstab -U /mnt >> /mnt/etc/fstab'',
          print ''fstab generated.'']"

subsection \<open>Bootloader\<close>

definition chroot_cmd :: "string \<Rightarrow> string" where
  "chroot_cmd c = ''arch-chroot /mnt /bin/bash -c '' @ sq @ c @ sq"

text \<open>\<open>open(path, "w")\<close> and \<open>f.write(text)\<close>.\<close>

definition open_w :: "env \<Rightarrow> string \<Rightarrow> unit prog" where
  "open_w ev path s =
     (let s1 = s\<lparr>trace := trace s @ [OpenW path]\<rparr>
      in case open_raises ev (trace s) path of
           None \<Rightarrow> (Return (), s1)
         | Some m \<Rightarrow> (Raise (OSError m), s1))"

definition file_write :: "string \<Rightarrow> string \<Rightarrow> unit prog" where
  "file_write path t = emit (Write path t)"

text \<open>
  \<open>subprocess.check_output(command, shell=True)\<close>: the standard output of the command,
  an exception on a non-zero exit status. The standard error is not captured.
\<close>

definition check_output :: "env \<Rightarrow> string \<Rightarrow> string prog" where
  "check_output ev command s =
     (let r = sh ev (trace s) command;
          s1 = s\<lparr>trace := trace s @ [Shell command]\<rparr>
      in if returncode r \<noteq> 0
         then (Raise (CalledProcessError command (returncode r) []), s1)
         else (Return (stdout r), s1))"

text \<open>The first part of \<open>install_bootloader\<close>: the choice.\<close>

definition bootloader_choice :: "bool \<Rightarrow> string prog" where
  "bootloader_choice uefi =
     (if \<not> uefi
      then thn (print ''BIOS detected. Only GRUB (BIOS) is supported.'') (ret ''1'')
      else thn (seq [print ''UEFI detected. Bootloader options:'',
                     print ''[1] GRUB (UEFI)'',
                     print ''[2] systemd-boot'',
                     print ''[3] rEFInd''])
               (bnd (input ''Select bootloader [1-3]: '')
                  (\<lambda>l. ret (if strip l = [] then ''1'' else strip l))))"

text \<open>The branch \<open>choice == "1"\<close>.\<close>

definition grub_branch :: "env \<Rightarrow> string \<Rightarrow> bool \<Rightarrow> unit prog" where
  "grub_branch ev disk uefi =
     thn (print ''Installing GRUB...'')
    (thn (run ev (chroot_cmd ''pacman -S --noconfirm grub''))
    (thn (if uefi
          then thn (run ev (chroot_cmd ''pacman -S --noconfirm efibootmgr''))
                   (run ev (chroot_cmd
                      ''grub-install --target=x86_64-efi --efi-directory=/boot --bootloader-id=GRUB''))
          else run ev (chroot_cmd (''grub-install --target=i386-pc /dev/'' @ disk)))
         (run ev (chroot_cmd ''grub-mkconfig -o /boot/grub/grub.cfg''))))"

text \<open>The branch \<open>choice == "2" and uefi\<close>.\<close>

definition systemd_boot_branch :: "env \<Rightarrow> string \<Rightarrow> unit prog" where
  "systemd_boot_branch ev disk =
     thn (seq [print ''Installing systemd-boot...'',
               run ev (chroot_cmd ''pacman -S --noconfirm efibootmgr''),
               run ev (chroot_cmd ''bootctl --path=/boot install''),
               open_w ev ''/mnt/boot/loader/loader.conf'',
               file_write ''/mnt/boot/loader/loader.conf'' (''default arch'' @ [CHR 0x0A]),
               file_write ''/mnt/boot/loader/loader.conf'' (''timeout 3'' @ [CHR 0x0A]),
               file_write ''/mnt/boot/loader/loader.conf'' (''editor 0'' @ [CHR 0x0A])])
    (bnd (check_output ev (''blkid -s UUID -o value /dev/'' @ disk @ ''2'')) (\<lambda>out.
       let root_uuid = strip out
       in seq [open_w ev ''/mnt/boot/loader/entries/arch.conf'',
               file_write ''/mnt/boot/loader/entries/arch.conf'' (''title Arch Linux'' @ [CHR 0x0A]),
               file_write ''/mnt/boot/loader/entries/arch.conf'' (''linux /vmlinuz-linux'' @ [CHR 0x0A]),
               file_write ''/mnt/boot/loader/entries/arch.conf''
                     (''initrd /initramfs-linux.img'' @ [CHR 0x0A]),
               file_write ''/mnt/boot/loader/entries/arch.conf''
                     (''options root=UUID='' @ root_uuid @ '' rw'' @ [CHR 0x0A])]))"

text \<open>The branch \<open>choice == "3" and uefi\<close>.\<close>

definition refind_branch :: "env \<Rightarrow> unit prog" where
  "refind_branch ev =
     seq [print ''Installing rEFInd...'',
          run ev (chroot_cmd ''pacman -S --noconfirm refind''),
          run ev (chroot_cmd ''refind-install'')]"

text \<open>
  In the last branch the function calls itself with the same arguments: under UEFI the
  choice is asked again. Every call under UEFI takes one answer of the operator, which
  bounds the recursion by the answers that are left; the interpreter's own recursion
  limit is not modelled.
\<close>

function install_bootloader :: "env \<Rightarrow> string \<Rightarrow> bool \<Rightarrow> state \<Rightarrow> unit outcome \<times> state" where
  "install_bootloader ev disk uefi s =
     (case bootloader_choice uefi s of
        (Raise e, s1) \<Rightarrow> (Raise e, s1)
      | (Return choice, s1) \<Rightarrow>
          (case (if choice = ''1'' then grub_branch ev disk uefi s1
                 else if choice = ''2'' \<and> uefi then systemd_boot_branch ev disk s1
                 else if choice = ''3'' \<and> uefi then refind_branch ev s1
                 else install_bootloader ev disk uefi
                        (snd (print ''Invalid choice or not supported in BIOS mode. Defaulting to GRUB.'' s1)))
           of (Return u, s3) \<Rightarrow> print ''Bootloader installed.'' s3
            | (Raise e, s3) \<Rightarrow> (Raise e, s3)))"
  by pat_completeness auto
termination
proof (relation "measure (\<lambda>(ev, disk, uefi, s). length (keys s))")
  show "wf (measure (\<lambda>(ev, disk, uefi, s). length (keys s)))"
    by simp
next
  fix ev :: env and disk :: string and uefi :: bool and s x1 s1 choice
  assume a: "(x1, s1) = bootloader_choice uefi s" "x1 = Return choice" "choice \<noteq> ''1''"
  then have c: "bootloader_choice uefi s = (Return choice, s1)"
    by simp
  have "length (keys s1) < length (keys s)"
  proof (cases uefi)
    case False
    with c a(3) show ?thesis
      by (simp add: bootloader_choice_def thn_def bnd_def print_def emit_def ret_def)
  next
    case True
    with c show ?thesis
      by (auto simp: bootloader_choice_def thn_def bnd_def print_def emit_def ret_def input_def
            Let_def split: list.splits key.splits)
  qed
  then show "((ev, disk, uefi,
          snd (print ''Invalid choice or not supported in BIOS mode. Defaulting to GRUB.'' s1)),
         ev, disk, uefi, s) \<in> measure (\<lambda>(ev, disk, uefi, s). length (keys s))"
    by (simp add: print_def emit_def)
qed

subsection \<open>System configuration\<close>

definition configure_system :: "env \<Rightarrow> string \<Rightarrow> bool \<Rightarrow> string \<Rightarrow> string \<Rightarrow> string \<Rightarrow> unit prog" where
  "configure_system ev disk uefi hostname username password =
     thn (print ''Configuring system...'')
    (thn (seq
       [run ev (chroot_cmd (''echo '' @ hostname @ '' > /etc/hostname'')),
        run ev (chroot_cmd (''echo '' @ sq @ ''127.0.0.1 localhost'' @ sq @ '' >> /etc/hosts'')),
        run ev (chroot_cmd (''echo '' @ sq @ ''::1       localhost'' @ sq @ '' >> /etc/hosts'')),
        run ev (chroot_cmd (''echo '' @ sq @ ''127.0.1.1 '' @ hostname @ ''.localdomain ''
                            @ hostname @ sq @ '' >> /etc/hosts'')),
        run ev (chroot_cmd ''ln -sf /usr/share/zoneinfo/UTC /etc/localtime''),
        run ev (chroot_cmd ''hwclock --systohc''),
        run ev (chroot_cmd (''echo '' @ sq @ ''en_US.UTF-8 UTF-8'' @ sq @ '' >> /etc/locale.gen'')),
        run ev (chroot_cmd ''locale-gen''),
        run ev (chroot_cmd (''echo '' @ sq @ ''LANG=en_US.UTF-8'' @ sq @ '' > /etc/locale.conf'')),
        run ev (chroot_cmd (''echo '' @ sq @ ''root:'' @ password @ sq @ '' | chpasswd'')),
        run ev (chroot_cmd (''useradd -m -G wheel '' @ username)),
        run ev (chroot_cmd (''echo '' @ sq @ username @ '':'' @ password @ sq @ '' | chpasswd'')),
        run ev (chroot_cmd (''sed -i '' @ sq
                  @ ''s/# %wheel ALL=(ALL:ALL) ALL/%wheel ALL=(ALL:ALL) ALL/'' @ sq
                  @ '' /etc/sudoers'')),
        run ev (chroot_cmd ''pacman -S --noconfirm networkmanager''),
        run ev (chroot_cmd ''systemctl enable NetworkManager'')])
    (thn (install_bootloader ev disk uefi)
         (print ''System configuration completed.'')))"

subsection \<open>The main flow and the program\<close>

definition main :: "env \<Rightarrow> unit prog" where
  "main ev =
     thn (print ''Arch Linux Installation Script'')
    (thn (print ''================================='')
    (bnd (detect_uefi ev) (\<lambda>uefi.
     thn (print (''Boot mode: '' @ (if uefi then ''UEFI'' else ''BIOS'')))
    (thn (configure_network ev)
    (bnd list_disks (\<lambda>disks.
     thn (print (''Available disks: '' @ py_str disks))
    (bnd (input ''Select a disk (e.g., sda, nvme0n1): '') (\<lambda>l.
       let disk = strip l
       in bnd (iterate disks) (\<lambda>ds.
          thn (if ''/dev/'' @ disk \<notin> set (map (\<lambda>d. ''/dev/'' @ d) ds)
               then thn (print ''Invalid disk selected.'') (sys_exit 1)
               else ret ())
         (bnd (partition_disk ev disk uefi) (\<lambda>partitions.
          thn (seq [format_partitions ev partitions uefi,
                    mount_partitions ev partitions uefi,
                    setup_pacman ev,
                    install_base_system ev,
                    generate_fstab ev,
                    install_desktop_environment ev])
         (bnd (input ''Enter hostname: '') (\<lambda>h.
            let hostname = (if strip h = [] then ''archlinux'' else strip h)
            in bnd (input ''Enter username: '') (\<lambda>u.
               let username = strip u
               in bnd (getpass ''Enter password: '') (\<lambda>password.
                  thn (configure_system ev disk uefi hostname username password)
                 (thn (run ev ''umount -R /mnt'')
                      (print ''Installation completed! You can now reboot into your new Arch Linux system.'')))))))))))))))))"

text \<open>
  The script from its first line: the check for root, then \<open>main()\<close> under the two
  handlers of the last lines. The result is the exit status and the trace.
\<close>

definition program :: "env \<Rightarrow> key list \<Rightarrow> nat \<times> event list" where
  "program ev ks =
     (if euid ev \<noteq> 0
      then (1, [Print ''This script must be run as root. Please use sudo or switch to root.''])
      else case main ev \<lparr>keys = ks, trace = []\<rparr> of
             (Return u, s) \<Rightarrow> (0, trace s)
           | (Raise KeyboardInterrupt, s) \<Rightarrow>
               (1, trace s @ [Print (CHR 0x0A # ''Installation aborted by user.'')])
           | (Raise (SystemExit n), s) \<Rightarrow> (n, trace s)
           | (Raise e, s) \<Rightarrow> (1, trace s @ [Print (''An error occurred: '' @ exc_str e)]))"

section \<open>Reading traces\<close>

fun shell_of :: "event \<Rightarrow> string list" where
  "shell_of (Shell c) = [c]"
| "shell_of _ = []"

definition shells :: "event list \<Rightarrow> string list" where
  "shells evs = concat (map shell_of evs)"

fun added_of :: "event \<Rightarrow> partition list" where
  "added_of (Parted (AddPartition p)) = [p]"
| "added_of _ = []"

text \<open>The plan: the partitions added to the disk, in the order of their addition.\<close>

definition plan_of :: "event list \<Rightarrow> partition list" where
  "plan_of evs = concat (map added_of evs)"

text \<open>The events of a run from state \<open>s\<close> to state \<open>s'\<close>.\<close>

definition since :: "state \<Rightarrow> state \<Rightarrow> event list" where
  "since s s' = drop (length (trace s)) (trace s')"

text \<open>
  The commands of partitioning, formatting and mounting, recognised by the tool the
  command line starts with. What the shell makes of operator-typed text inside another
  command line is outside the model.
\<close>

definition disk_command :: "string \<Rightarrow> bool" where
  "disk_command c =
     list_ex (\<lambda>p. prefix p c) [''cfdisk '', ''mkfs.'', ''mkswap '', ''swapon '', ''mount '']"

fun disk_event :: "event \<Rightarrow> bool" where
  "disk_event (Parted p) = True"
| "disk_event (Shell c) = disk_command c"
| "disk_event _ = False"

text \<open>An environment in which every command succeeds and the library never raises.\<close>

definition ok_proc :: proc where
  "ok_proc = \<lparr>returncode = 0, stdout = [], stderr = []\<rparr>"

definition disk_env :: "int \<Rightarrow> int \<Rightarrow> env" where
  "disk_env len ssize =
     \<lparr>euid = 0, efi_present = True, sh = (\<lambda>h c. ok_proc),
      parted_raises = (\<lambda>h p. None), open_raises = (\<lambda>h p. None),
      dev_length = (\<lambda>d. len), dev_sector_size = (\<lambda>d. ssize)\<rparr>"

definition start_state :: "key list \<Rightarrow> state" where
  "start_state ks = \<lparr>keys = ks, trace = []\<rparr>"

fun requested_of :: "event \<Rightarrow> geometry list" where
  "requested_of (Parted (NewGeometry d a l)) = [Geometry a l]"
| "requested_of _ = []"

text \<open>The regions the script asks the library for, in order.\<close>

definition geometry_requests :: "event list \<Rightarrow> geometry list" where
  "geometry_requests evs = concat (map requested_of evs)"

text \<open>
  An environment in which the second and the third partition of \<open>sda\<close> answer the
  query of their UUID with different values.
\<close>

definition uuid_env :: env where
  "uuid_env = (disk_env 1000000 512)\<lparr>sh := (\<lambda>h c.
      if c = ''blkid -s UUID -o value /dev/sda2'' then ok_proc\<lparr>stdout := ''SWAP-UUID'' @ [CHR 0x0A]\<rparr>
      else if c = ''blkid -s UUID -o value /dev/sda3'' then ok_proc\<lparr>stdout := ''ROOT-UUID'' @ [CHR 0x0A]\<rparr>
      else ok_proc)\<rparr>"

text \<open>An environment in which setting the password of root fails.\<close>

definition chpasswd_fail_env :: env where
  "chpasswd_fail_env = (disk_env 1000000 512)\<lparr>sh := (\<lambda>h c.
      if c = chroot_cmd (''echo '' @ sq @ ''root:hunter2'' @ sq @ '' | chpasswd'')
      then \<lparr>returncode = 1, stdout = [], stderr = ''chpasswd: failed''\<rparr>
      else ok_proc)\<rparr>"

text \<open>
  The file systems of the plan by role, in the order EFI, swap, root, and the device
  path of the partition at a position: the words of the specification.
\<close>

definition plan_roles :: "bool \<Rightarrow> bool \<Rightarrow> string list" where
  "plan_roles uefi swap =
     (if uefi then [''fat32''] else []) @ (if swap then [''swap''] else []) @ [''ext4'']"

definition partition_path :: "string \<Rightarrow> nat \<Rightarrow> string" where
  "partition_path disk i = ''/dev/'' @ disk @ show_nat (Suc i)"

text \<open>The commands that prepare a partition of a given file system.\<close>

definition format_commands :: "string \<Rightarrow> string \<Rightarrow> string list" where
  "format_commands fs part =
     (if fs = ''fat32'' then [''mkfs.fat -F32 '' @ part]
      else if fs = ''swap'' then [''mkswap '' @ part, ''swapon '' @ part]
      else [''mkfs.ext4 '' @ part])"

text \<open>The commands of mounting: root first, then the first path under it for UEFI.\<close>

definition mount_commands :: "string list \<Rightarrow> bool \<Rightarrow> string list" where
  "mount_commands partitions uefi =
     [''mount '' @ last partitions @ '' /mnt'']
     @ (if uefi then [''mkdir -p /mnt/boot'', ''mount '' @ hd partitions @ '' /mnt/boot''] else [])"

text \<open>
  What a run may do before a disk is chosen: an event that is no command of
  partitioning, formatting or mounting and not the message of the disk check; an
  exception that, if it is an exit, is the exit with status 1. A program behaves when
  from every state it adds only such events and raises only such exceptions.
\<close>

definition benign :: "event \<Rightarrow> bool" where
  "benign e = (\<not> disk_event e \<and> e \<noteq> Print ''Invalid disk selected.'')"

definition exits_one :: "exc \<Rightarrow> bool" where
  "exits_one e = (\<forall>n. e = SystemExit n \<longrightarrow> n = 1)"

definition behaves :: "'a prog \<Rightarrow> bool" where
  "behaves m = (\<forall>s. (\<exists>evs. trace (snd (m s)) = trace s @ evs \<and> list_all benign evs)
                   \<and> (\<forall>e. fst (m s) = Raise e \<longrightarrow> exits_one e))"

section \<open>Properties\<close>

lemmas run_defs = ret_def raise_def bnd_def thn_def emit_def print_def sys_exit_def input_def
  getpass_def run_command_def run_def parted_def floordiv_def Let_def try_except_def
  open_w_def file_write_def check_output_def

lemmas bl_defs = bootloader_choice_def grub_branch_def systemd_boot_branch_def refind_branch_def
   chroot_cmd_def sq_def strip_def is_space_def ok_proc_def disk_env_def start_state_def shells_def

subsection \<open>Sizes of the EFI and swap partitions\<close>

text \<open>
  Claim C4: under UEFI the EFI partition has a fixed size of 512 MiB and a requested swap
  partition a fixed size of 2 GiB, whatever the size of the disk: the length in sectors
  is the size in bytes divided by the sector size.

  The script multiplies by the length of the device before it divides. On a disk of
  1000000 sectors of 512 bytes it asks for an EFI region of 1048576000000 sectors and a
  swap region of 4194304000000 sectors, on a disk of twice the length for twice as much,
  where 512 MiB are 1048576 sectors and 2 GiB are 4194304 sectors. The root region that
  follows has a negative length.
\<close>

theorem fixed_sizes_scale_with_disk:
  "geometry_requests (trace (snd (auto_partition_disk (disk_env 1000000 512) ''sda'' True True
       (start_state []))))
     = [Geometry 1 1048576000000, Geometry 1048576000001 4194304000000,
        Geometry 5242880000001 (- 5242879000002)]
   \<and> geometry_requests (trace (snd (auto_partition_disk (disk_env 2000000 512) ''sda'' True True
       (start_state []))))
     = [Geometry 1 2097152000000, Geometry 2097152000001 8388608000000,
        Geometry 10485760000001 (- 10485758000002)]
   \<and> efi_size div 512 = 1048576 \<and> swap_size div 512 = 4194304"
  by (simp add: auto_partition_disk_def add_region_def run_defs disk_env_def start_state_def
        geometry_requests_def efi_size_def swap_size_def g_end_def)

subsection \<open>The bootloader's fallback\<close>

text \<open>
  Claim C3: for every firmware mode and choice either a backend's commands run or the
  fallback to GRUB runs exactly once; the retry ends after at most one retry for every
  choice the operator can give.

  The recursive call passes no choice: under UEFI it asks the operator again. With the
  answers 9, 9, 1 the message of the fallback is printed twice and the choice is asked
  three times. With the answers 9, 2 the run that announced GRUB installs systemd-boot:
  no command of GRUB is among its commands.
\<close>

theorem bootloader_retry_repeats:
  "count_list (trace (snd (install_bootloader (disk_env 1000000 512) ''sda'' True
       (start_state [Typed ''9'', Typed ''9'', Typed ''1'']))))
     (Print ''Invalid choice or not supported in BIOS mode. Defaulting to GRUB.'') = 2
   \<and> count_list (trace (snd (install_bootloader (disk_env 1000000 512) ''sda'' True
       (start_state [Typed ''9'', Typed ''9'', Typed ''1'']))))
     (Prompt ''Select bootloader [1-3]: '') = 3
   \<and> shells (trace (snd (install_bootloader (disk_env 1000000 512) ''sda'' True
       (start_state [Typed ''9'', Typed ''2'']))))
     = [chroot_cmd ''pacman -S --noconfirm efibootmgr'', chroot_cmd ''bootctl --path=/boot install'',
        ''blkid -s UUID -o value /dev/sda2'']"
  by (simp add: run_defs bl_defs)


subsection \<open>The root UUID of the loader entry\<close>

text \<open>
  Claim C5: under UEFI with systemd-boot the loader entry holds the line
  \<open>options root=UUID=<uuid> rw\<close> with the UUID of the root partition of the plan, also
  when the plan has a swap partition and root is the third partition.

  The script always queries the second partition. For the three paths of a plan with
  swap, formatting makes the second partition the swap area and the third the root file
  system, mounting puts the third at the target root, and the entry written carries the
  UUID of the second, the swap area.
\<close>

theorem loader_entry_uses_second_partition:
  "fst (auto_partition_disk uuid_env ''sda'' True True (start_state []))
     = Return [''/dev/sda1'', ''/dev/sda2'', ''/dev/sda3'']
   \<and> shells (trace (snd (format_partitions uuid_env [''/dev/sda1'', ''/dev/sda2'', ''/dev/sda3''] True
         (start_state []))))
     = [''mkfs.fat -F32 /dev/sda1'', ''mkswap /dev/sda2'', ''swapon /dev/sda2'', ''mkfs.ext4 /dev/sda3'']
   \<and> shells (trace (snd (mount_partitions uuid_env [''/dev/sda1'', ''/dev/sda2'', ''/dev/sda3''] True
         (start_state []))))
     = [''mount /dev/sda3 /mnt'', ''mkdir -p /mnt/boot'', ''mount /dev/sda1 /mnt/boot'']
   \<and> stdout (sh uuid_env [] ''blkid -s UUID -o value /dev/sda3'') = ''ROOT-UUID'' @ [CHR 0x0A]
   \<and> Write ''/mnt/boot/loader/entries/arch.conf'' (''options root=UUID=SWAP-UUID rw'' @ [CHR 0x0A])
       \<in> set (trace (snd (install_bootloader uuid_env ''sda'' True (start_state [Typed ''2'']))))"
  by (simp add: run_defs bl_defs uuid_env_def auto_partition_disk_def add_region_def efi_size_def swap_size_def
     g_end_def format_partitions_def format_one_def mount_partitions_def index_last_def index_first_def)


subsection \<open>The password in the diagnostics\<close>

text \<open>
  Claim C8: the password is never written to the printed output, also not in the
  diagnostic printed when a command that embeds it fails.

  \<open>run_command\<close> prints the whole command line of a failed command. When the command
  that sets the password of root fails, the printed line holds the password.
\<close>

theorem failed_chpasswd_prints_password:
  "fst (configure_system chpasswd_fail_env ''sda'' True ''host'' ''user'' ''hunter2'' (start_state []))
     = Raise (CalledProcessError
         (chroot_cmd (''echo '' @ sq @ ''root:'' @ ''hunter2'' @ sq @ '' | chpasswd'')) 1 ''chpasswd: failed'')
   \<and> Print (''Error executing command: arch-chroot /mnt /bin/bash -c '' @ sq @ ''echo '' @ sq
             @ ''root:'' @ ''hunter2'' @ sq @ '' | chpasswd'' @ sq)
       \<in> set (trace (snd (configure_system chpasswd_fail_env ''sda'' True ''host'' ''user'' ''hunter2''
                 (start_state []))))"
  by (simp add: run_defs bl_defs chpasswd_fail_env_def configure_system_def)

subsection \<open>The automatic plan\<close>

text \<open>Running a sequence to its end: every step has returned.\<close>

lemma bnd_Return_iff:
  "(bnd m f s = (Return y, s')) = (\<exists>x s1. m s = (Return x, s1) \<and> f x s1 = (Return y, s'))"
  by (auto simp: bnd_def split: prod.splits outcome.splits)

lemma thn_Return_iff:
  "(thn m k s = (Return y, s')) = (\<exists>x s1. m s = (Return x, s1) \<and> k s1 = (Return y, s'))"
  by (simp add: thn_def bnd_Return_iff)

lemma ret_iff: "(ret x s = (r, s')) = (r = Return x \<and> s' = s)"
  by (auto simp: ret_def)

lemma print_iff: "(print t s = (r, s')) = (r = Return () \<and> s' = s\<lparr>trace := trace s @ [Print t]\<rparr>)"
  by (auto simp: print_def emit_def)

lemma parted_Return_iff:
  "(parted ev oper s = (Return u, s')) =
     (parted_raises ev (trace s) oper = None \<and> s' = s\<lparr>trace := trace s @ [Parted oper]\<rparr>)"
  by (auto simp: parted_def Let_def split: option.splits)

lemma floordiv_Return_iff:
  "(floordiv a b s = (Return q, s')) = (b \<noteq> 0 \<and> q = a div b \<and> s' = s)"
  by (auto simp: floordiv_def ret_def raise_def)

lemma plan_of_append: "plan_of (xs @ ys) = plan_of xs @ plan_of ys"
  by (simp add: plan_of_def)

lemma plan_of_Nil: "plan_of [] = []"
  by (simp add: plan_of_def)

lemma plan_of_Cons: "plan_of (e # es) = added_of e @ plan_of es"
  by (simp add: plan_of_def)

lemma since_append: "trace s' = trace s @ evs \<Longrightarrow> since s s' = evs"
  by (simp add: since_def)

lemma add_region_Return:
  assumes "add_region ev dev fs boot start len s = (Return g, s')"
  shows "g = Geometry start len \<and>
         (\<exists>evs. trace s' = trace s @ evs \<and> plan_of evs = [Partition fs (Geometry start len) boot])"
  using assms
  by (cases boot)
     (auto simp: add_region_def Let_def thn_Return_iff ret_iff parted_Return_iff plan_of_def)

lemma auto_partition_returns:
  assumes "auto_partition_disk ev disk uefi swap s = (Return paths, s')"
  shows "map p_fs (plan_of (since s s')) = plan_roles uefi swap \<and>
         paths = map (partition_path disk) [0..<length (plan_of (since s s'))]"
  using assms
  by (cases uefi; cases swap)
     (auto simp: auto_partition_disk_def Let_def bnd_Return_iff thn_Return_iff ret_iff print_iff
        parted_Return_iff floordiv_Return_iff since_def plan_of_append plan_of_Nil plan_of_Cons
        plan_roles_def partition_path_def dest!: add_region_Return)


lemma auto_partition_total:
  assumes "\<forall>h p. parted_raises ev h p = None" and "dev_sector_size ev (''/dev/'' @ disk) \<noteq> 0"
  shows "\<exists>paths. fst (auto_partition_disk ev disk uefi swap s) = Return paths"
  using assms
  by (cases uefi; cases swap)
     (simp_all add: auto_partition_disk_def add_region_def run_defs)

text \<open>
  Claim C1: for every firmware mode and swap flag the automatic plan has exactly one root
  partition, placed last, an EFI partition exactly under UEFI, placed first, and a swap
  partition exactly when swap was requested, placed right before root; the returned list
  has one path per planned partition, named \<open>/dev/<disk><index>\<close>, in the order of the
  plan.

  Whenever \<open>auto_partition_disk\<close> returns, the file systems of the partitions it added
  are, in order, those of the roles, and the paths are the partition paths of the
  positions of the plan. It returns whenever the library raises nothing and the sector
  size is not 0.
\<close>

theorem auto_partition_plan:
  "(auto_partition_disk ev disk uefi swap s = (Return paths, s') \<longrightarrow>
      map p_fs (plan_of (since s s')) = plan_roles uefi swap \<and>
      paths = map (partition_path disk) [0..<length (plan_of (since s s'))])
   \<and> ((\<forall>h p. parted_raises ev h p = None) \<and> dev_sector_size ev (''/dev/'' @ disk) \<noteq> 0 \<longrightarrow>
        (\<exists>ps. fst (auto_partition_disk ev disk uefi swap s) = Return ps))"
  using auto_partition_returns [of ev disk uefi swap s paths s']
    auto_partition_total [of ev disk uefi swap s]
  by blast

theorem auto_partition_plan_witness:
  "(\<forall>h p. parted_raises (disk_env 1000000 512) h p = None)
   \<and> dev_sector_size (disk_env 1000000 512) (''/dev/'' @ ''sda'') \<noteq> 0
   \<and> auto_partition_disk (disk_env 1000000 512) ''sda'' True True (start_state [])
       = (Return [''/dev/sda1'', ''/dev/sda2'', ''/dev/sda3''],
          snd (auto_partition_disk (disk_env 1000000 512) ''sda'' True True (start_state [])))
   \<and> map p_fs (plan_of (since (start_state [])
          (snd (auto_partition_disk (disk_env 1000000 512) ''sda'' True True (start_state [])))))
       = [''fat32'', ''swap'', ''ext4'']
   \<and> [''/dev/sda1'', ''/dev/sda2'', ''/dev/sda3'']
       = map (partition_path ''sda'') [0, 1, 2]"
  using auto_partition_plan [of "disk_env 1000000 512" "''sda''" True True "start_state []"
      "[''/dev/sda1'', ''/dev/sda2'', ''/dev/sda3'']"
      "snd (auto_partition_disk (disk_env 1000000 512) ''sda'' True True (start_state []))"]
  by (simp add: auto_partition_disk_def add_region_def run_defs disk_env_def start_state_def
        plan_roles_def partition_path_def since_def plan_of_def efi_size_def swap_size_def g_end_def)

subsection \<open>Formatting the automatic plan\<close>

text \<open>
  Claim C2: for each of the four combinations of firmware mode and swap flag, formatting
  the paths of the automatic plan formats FAT32 only at the position of the EFI
  partition, makes and activates swap only at the position of the swap partition, and
  formats EXT4 at every other position.

  When every command succeeds, the commands of \<open>format_partitions\<close> on the returned paths
  are, position by position, the commands of the file system the plan has there.
\<close>

theorem format_follows_plan:
  assumes "\<forall>h c. returncode (sh ev h c) = 0"
    and "auto_partition_disk ev disk uefi swap s = (Return paths, s1)"
  shows "fst (format_partitions ev paths uefi s1) = Return ()
       \<and> shells (since s1 (snd (format_partitions ev paths uefi s1)))
          = concat (map2 format_commands (map p_fs (plan_of (since s s1))) paths)"
proof -
  from auto_partition_returns [OF assms(2)]
  have roles: "map p_fs (plan_of (since s s1)) = plan_roles uefi swap"
    and paths: "paths = map (partition_path disk) [0..<length (plan_roles uefi swap)]"
    by (auto dest: arg_cong [where f = length])
  show ?thesis
    unfolding roles
    using assms(1) paths
    by (cases uefi; cases swap)
       (simp_all add: plan_roles_def format_partitions_def format_one_def format_commands_def
          run_defs since_def shells_def upt_rec)
qed

theorem format_follows_plan_witness:
  "(\<forall>h c. returncode (sh (disk_env 1000000 512) h c) = 0)
   \<and> auto_partition_disk (disk_env 1000000 512) ''sda'' True True (start_state [])
       = (Return [''/dev/sda1'', ''/dev/sda2'', ''/dev/sda3''],
          snd (auto_partition_disk (disk_env 1000000 512) ''sda'' True True (start_state [])))
   \<and> shells (since (snd (auto_partition_disk (disk_env 1000000 512) ''sda'' True True (start_state [])))
        (snd (format_partitions (disk_env 1000000 512) [''/dev/sda1'', ''/dev/sda2'', ''/dev/sda3''] True
           (snd (auto_partition_disk (disk_env 1000000 512) ''sda'' True True (start_state []))))))
       = [''mkfs.fat -F32 /dev/sda1'', ''mkswap /dev/sda2'', ''swapon /dev/sda2'', ''mkfs.ext4 /dev/sda3'']"
  using format_follows_plan [of "disk_env 1000000 512" "''sda''" True True "start_state []"
      "[''/dev/sda1'', ''/dev/sda2'', ''/dev/sda3'']"
      "snd (auto_partition_disk (disk_env 1000000 512) ''sda'' True True (start_state []))"]
  by (simp add: auto_partition_disk_def add_region_def run_defs disk_env_def start_state_def
        since_def plan_of_def efi_size_def swap_size_def g_end_def format_commands_def ok_proc_def)

subsection \<open>Mounting\<close>

text \<open>
  Claim C6: for every non-empty list of paths and every firmware mode, the last path is
  mounted at the target root before any other mount; under UEFI the boot directory is
  then created and the first path mounted under it; under BIOS nothing but the last path
  is mounted.

  The commands issued are always a prefix of the mount commands (the run stops at the
  first command that fails), and all of them when every command succeeds.
\<close>

theorem mount_root_first:
  assumes "partitions \<noteq> []"
  shows "prefix (shells (since s (snd (mount_partitions ev partitions uefi s))))
                (mount_commands partitions uefi)
       \<and> ((\<forall>h c. returncode (sh ev h c) = 0) \<longrightarrow>
            fst (mount_partitions ev partitions uefi s) = Return ()
          \<and> shells (since s (snd (mount_partitions ev partitions uefi s)))
              = mount_commands partitions uefi)"
proof (cases partitions)
  case Nil
  with assms show ?thesis by simp
next
  case (Cons p ps)
  then show ?thesis
    by (simp add: mount_partitions_def mount_commands_def index_last_def index_first_def
          run_defs since_def shells_def)
qed

theorem mount_root_first_witness:
  "[''/dev/sda1'', ''/dev/sda2''] \<noteq> []
   \<and> (\<forall>h c. returncode (sh (disk_env 1000000 512) h c) = 0)
   \<and> fst (mount_partitions (disk_env 1000000 512) [''/dev/sda1'', ''/dev/sda2''] True (start_state []))
       = Return ()
   \<and> shells (since (start_state [])
        (snd (mount_partitions (disk_env 1000000 512) [''/dev/sda1'', ''/dev/sda2''] True (start_state []))))
       = [''mount /dev/sda2 /mnt'', ''mkdir -p /mnt/boot'', ''mount /dev/sda1 /mnt/boot'']"
  using mount_root_first [of "[''/dev/sda1'', ''/dev/sda2'']" "start_state []" "disk_env 1000000 512" True]
  by (simp add: mount_commands_def disk_env_def ok_proc_def)

subsection \<open>Two paths under BIOS\<close>

text \<open>
  Claim C10: under BIOS, formatting any list of two paths makes and activates swap on the
  first path and formats the second as EXT4, whatever the partitions were meant for; this
  includes the paths the operator typed after manual partitioning, which are taken as the
  words of the typed line without any check.

  For every two paths the commands issued are a prefix of these three commands, and all
  three when every command succeeds. Manual partitioning accepts every line the operator
  types: once \<open>cfdisk\<close> has succeeded it returns a list and raises nothing, and whenever
  the list it returns has two paths, formatting treats the first as swap and the second
  as root, in the order typed.
\<close>

lemma split_no_break_space:
  "split (strip (''/dev/sda1'' @ [CHR 0xA0] @ ''/dev/sda2'' @ [CHR 0x85]))
     = [''/dev/sda1'', ''/dev/sda2'']"
  by (simp add: split_def strip_def is_space_def)



subsection \<open>The run up to the choice of the disk\<close>

text \<open>
  The network phase behaves, by composition of its steps; \<open>main\<close> then never returns:
  after the network phase it prints the detection result, asks for the disk and raises.
\<close>

lemma behaves_ret: "behaves (ret x)"
  by (simp add: behaves_def ret_def)

lemma behaves_events:
  "behaves m \<Longrightarrow> m s = (r, s1) \<Longrightarrow> \<exists>evs. trace s1 = trace s @ evs \<and> list_all benign evs"
  unfolding behaves_def by (metis snd_conv)

lemma behaves_raise: "behaves m \<Longrightarrow> m s = (Raise e, s1) \<Longrightarrow> exits_one e"
  unfolding behaves_def by (metis fst_conv)

lemma behaves_sys_exit: "n = 1 \<Longrightarrow> behaves (sys_exit n)"
  by (simp add: behaves_def sys_exit_def raise_def exits_one_def)

lemma behaves_print: "t \<noteq> ''Invalid disk selected.'' \<Longrightarrow> behaves (print t)"
  by (simp add: behaves_def print_def emit_def benign_def)

lemma behaves_input: "behaves (input p)"
  by (auto simp: behaves_def input_def Let_def benign_def exits_one_def split: list.splits key.splits)

lemma behaves_getpass: "behaves (getpass p)"
  by (simp add: getpass_def behaves_input)

lemma behaves_run: "\<not> disk_command c \<Longrightarrow> behaves (run ev c)"
  by (auto simp: behaves_def run_defs benign_def exits_one_def)

lemma behaves_bnd:
  assumes "behaves m" and "\<And>x. behaves (f x)"
  shows "behaves (bnd m f)"
  unfolding behaves_def
proof (intro allI)
  fix s
  obtain r s1 where ms: "m s = (r, s1)" by (cases "m s")
  from behaves_events [OF assms(1) ms]
  obtain evs where e1: "trace s1 = trace s @ evs" "list_all benign evs"
    by blast
  have x1: "\<And>e. r = Raise e \<Longrightarrow> exits_one e"
    using behaves_raise [OF assms(1)] ms by blast
  show "(\<exists>evs. trace (snd (bnd m f s)) = trace s @ evs \<and> list_all benign evs)
        \<and> (\<forall>e. fst (bnd m f s) = Raise e \<longrightarrow> exits_one e)"
  proof (cases r)
    case (Raise e)
    with ms e1 x1 show ?thesis by (simp add: bnd_def)
  next
    case (Return x)
    from assms(2) [of x] obtain evs2
      where e2: "trace (snd (f x s1)) = trace s1 @ evs2" "list_all benign evs2"
      unfolding behaves_def by blast
    from assms(2) [of x] have x2: "\<And>e. fst (f x s1) = Raise e \<Longrightarrow> exits_one e"
      unfolding behaves_def by blast
    from Return ms e1 e2 x2 show ?thesis by (simp add: bnd_def)
  qed
qed

lemma behaves_thn: "behaves m \<Longrightarrow> behaves k \<Longrightarrow> behaves (thn m k)"
  by (simp add: thn_def behaves_bnd)

lemma behaves_try_except:
  assumes "behaves m" and "\<And>e k. h e = Some k \<Longrightarrow> behaves k"
  shows "behaves (try_except m h)"
  unfolding behaves_def
proof (intro allI)
  fix s
  obtain r s1 where ms: "m s = (r, s1)" by (cases "m s")
  from behaves_events [OF assms(1) ms]
  obtain evs where e1: "trace s1 = trace s @ evs" "list_all benign evs"
    by blast
  have x1: "\<And>e. r = Raise e \<Longrightarrow> exits_one e"
    using behaves_raise [OF assms(1)] ms by blast
  show "(\<exists>evs. trace (snd (try_except m h s)) = trace s @ evs \<and> list_all benign evs)
        \<and> (\<forall>e. fst (try_except m h s) = Raise e \<longrightarrow> exits_one e)"
  proof (cases r)
    case (Return x)
    with ms e1 show ?thesis by (simp add: try_except_def)
  next
    case (Raise e)
    show ?thesis
    proof (cases "h e")
      case None
      with Raise ms e1 x1 show ?thesis by (simp add: try_except_def)
    next
      case (Some k)
      from assms(2) [OF Some] obtain evs2
        where e2: "trace (snd (k s1)) = trace s1 @ evs2" "list_all benign evs2"
        unfolding behaves_def by blast
      from assms(2) [OF Some] have x2: "\<And>e. fst (k s1) = Raise e \<Longrightarrow> exits_one e"
        unfolding behaves_def by blast
      from Some Raise ms e1 e2 x2 show ?thesis by (simp add: try_except_def)
    qed
  qed
qed

lemmas behaves_intros = behaves_ret behaves_sys_exit behaves_print behaves_input behaves_getpass
  behaves_run behaves_bnd behaves_thn behaves_try_except

lemma behaves_check_internet: "behaves (check_internet ev)"
  unfolding check_internet_def
  by (intro behaves_intros) (auto simp: disk_command_def intro!: behaves_intros split: exc.splits)

lemma behaves_wifi_setup: "behaves (wifi_setup ev)"
  unfolding wifi_setup_def Let_def
  by (intro behaves_intros behaves_check_internet allI) (auto simp: disk_command_def intro!: behaves_intros behaves_check_internet)

lemma behaves_configure_network: "behaves (configure_network ev)"
  unfolding configure_network_def Let_def
  by (intro behaves_intros behaves_check_internet allI) (auto simp: disk_command_def intro!: behaves_intros behaves_check_internet behaves_wifi_setup)


lemma configure_network_result:
  assumes "configure_network ev s = (r, s1)"
  shows "(\<exists>evs. trace s1 = trace s @ evs \<and> list_all benign evs)
       \<and> (\<forall>e. r = Raise e \<longrightarrow> exits_one e)"
  using behaves_events [OF behaves_configure_network assms]
    behaves_raise [OF behaves_configure_network, of ev s _ s1] assms
  by blast

lemma main_result:
  assumes "main ev s = (r, s')"
  shows "(\<exists>e. r = Raise e \<and> exits_one e) \<and> (\<exists>evs. trace s' = trace s @ evs \<and> list_all benign evs)"
  using assms
  by (auto simp: main_def run_defs detect_uefi_def list_disks_def iterate_def py_str_def
        benign_def exits_one_def
      split: prod.splits outcome.splits list.splits key.splits
      dest!: configure_network_result)

lemma program_result:
  "fst (program ev ks) = 1 \<and> list_all benign (snd (program ev ks))"
proof (cases "euid ev = 0")
  case False
  then show ?thesis by (simp add: program_def benign_def)
next
  case True
  obtain r s' where m: "main ev \<lparr>keys = ks, trace = []\<rparr> = (r, s')"
    by (cases "main ev \<lparr>keys = ks, trace = []\<rparr>")
  from main_result [OF m] obtain e where r: "r = Raise e" and e: "exits_one e"
    and t: "list_all benign (trace s')"
    by auto
  from True m r e t show ?thesis
    by (cases e) (simp_all add: program_def benign_def exits_one_def)
qed

text \<open>
  Claim C7: for every disk id the operator types that is not among the detected disks,
  the program ends with exit status 1 and no partitioning command is attempted before.

  No disk is ever detected (see C9), so no typed id is among the detected ones. Every run
  in which the disk prompt is shown ends with exit status 1, whatever the operator
  answers, and none of its events is a command of partitioning, formatting or mounting.
\<close>

theorem invalid_disk_exits_before_partitioning:
  assumes "Prompt ''Select a disk (e.g., sda, nvme0n1): '' \<in> set (snd (program ev ks))"
  shows "fst (program ev ks) = 1 \<and> (\<forall>e \<in> set (snd (program ev ks)). \<not> disk_event e)"
  using program_result [of ev ks]
  by (auto simp: list_all_iff benign_def)

theorem invalid_disk_exits_before_partitioning_witness:
  "Prompt ''Select a disk (e.g., sda, nvme0n1): ''
     \<in> set (snd (program (disk_env 1000000 512) [Typed ''sdz'']))
   \<and> fst (program (disk_env 1000000 512) [Typed ''sdz'']) = 1
   \<and> list_all (\<lambda>e. \<not> disk_event e) (snd (program (disk_env 1000000 512) [Typed ''sdz'']))"
proof -
  have "Prompt ''Select a disk (e.g., sda, nvme0n1): ''
          \<in> set (snd (program (disk_env 1000000 512) [Typed ''sdz'']))"
    by (simp add: program_def main_def configure_network_def check_internet_def run_defs
          detect_uefi_def list_disks_def iterate_def py_str_def disk_env_def ok_proc_def)
  with invalid_disk_exits_before_partitioning [of "disk_env 1000000 512" "[Typed ''sdz'']"]
  show ?thesis by (simp add: list_all_iff)
qed

text \<open>
  Claim C9: disk detection never returns a list: \<open>list_disks\<close> returns \<open>None\<close>. So for
  every disk id the operator types, real or not, the membership check raises, the
  program exits with status 1 before any command of partitioning, formatting or
  mounting, and the branch that prints \<open>Invalid disk selected.\<close> is never taken.

  The exit status and the absence of those events hold for every run. With the network
  up at the first check and any line typed at the disk prompt, the run is the one
  written out below, ending with the message of the \<open>TypeError\<close>.
\<close>

theorem detection_returns_none:
  "fst (list_disks s) = Return None
   \<and> fst (program ev ks) = 1
   \<and> list_all (\<lambda>e. \<not> disk_event e \<and> e \<noteq> Print ''Invalid disk selected.'') (snd (program ev ks))
   \<and> (euid ev = 0 \<and> (\<forall>h. returncode (sh ev h ''ping -c 1 archlinux.org'') = 0)
        \<and> ks = Typed d # rest \<longrightarrow>
        program ev ks
          = (1, [Print ''Arch Linux Installation Script'',
                 Print ''================================='',
                 Print (''Boot mode: '' @ (if efi_present ev then ''UEFI'' else ''BIOS'')),
                 Print ''Checking internet connectivity...'',
                 Shell ''ping -c 1 archlinux.org'',
                 Print ''Internet connection confirmed.'',
                 Print ''Detecting available disks...'',
                 Print ''Available disks: None'',
                 Prompt ''Select a disk (e.g., sda, nvme0n1): '',
                 Print (''An error occurred: '' @ sq @ ''NoneType'' @ sq @ '' object is not iterable'')]))"
proof -
  have "list_all (\<lambda>e. \<not> disk_event e \<and> e \<noteq> Print ''Invalid disk selected.'') (snd (program ev ks))"
    using program_result [of ev ks] by (simp add: list_all_iff benign_def)
  moreover have "fst (program ev ks) = 1"
    using program_result [of ev ks] by simp
  moreover have "fst (list_disks s) = Return None"
    by (simp add: list_disks_def run_defs)
  moreover have "euid ev = 0 \<and> (\<forall>h. returncode (sh ev h ''ping -c 1 archlinux.org'') = 0)
        \<and> ks = Typed d # rest \<longrightarrow>
        program ev ks
          = (1, [Print ''Arch Linux Installation Script'',
                 Print ''================================='',
                 Print (''Boot mode: '' @ (if efi_present ev then ''UEFI'' else ''BIOS'')),
                 Print ''Checking internet connectivity...'',
                 Shell ''ping -c 1 archlinux.org'',
                 Print ''Internet connection confirmed.'',
                 Print ''Detecting available disks...'',
                 Print ''Available disks: None'',
                 Prompt ''Select a disk (e.g., sda, nvme0n1): '',
                 Print (''An error occurred: '' @ sq @ ''NoneType'' @ sq @ '' object is not iterable'')])"
    by (simp add: program_def main_def configure_network_def check_internet_def run_defs
          detect_uefi_def list_disks_def iterate_def py_str_def)
  ultimately show ?thesis by blast
qed

theorem detection_returns_none_witness:
  "euid (disk_env 1000000 512) = 0
   \<and> (\<forall>h. returncode (sh (disk_env 1000000 512) h ''ping -c 1 archlinux.org'') = 0)
   \<and> program (disk_env 1000000 512) [Typed ''sda'']
       = (1, [Print ''Arch Linux Installation Script'',
              Print ''================================='',
              Print ''Boot mode: UEFI'',
              Print ''Checking internet connectivity...'',
              Shell ''ping -c 1 archlinux.org'',
              Print ''Internet connection confirmed.'',
              Print ''Detecting available disks...'',
              Print ''Available disks: None'',
              Prompt ''Select a disk (e.g., sda, nvme0n1): '',
              Print (''An error occurred: '' @ sq @ ''NoneType'' @ sq @ '' object is not iterable'')])
   \<and> list_all (\<lambda>e. \<not> disk_event e \<and> e \<noteq> Print ''Invalid disk selected.'')
        (snd (program (disk_env 1000000 512) [Typed ''sda'']))"
proof -
  have h: "euid (disk_env 1000000 512) = 0
      \<and> (\<forall>h. returncode (sh (disk_env 1000000 512) h ''ping -c 1 archlinux.org'') = 0)"
    by (simp add: disk_env_def ok_proc_def)
  have e: "efi_present (disk_env 1000000 512)"
    by (simp add: disk_env_def)
  from h e detection_returns_none [where s = "start_state []" and ev = "disk_env 1000000 512"
      and ks = "[Typed ''sda'']" and d = "''sda''" and rest = "[]"]
  show ?thesis by (simp add: disk_command_def)
qed

end
